theory Spec2Isabelle
  imports Complex_Main "HOL-Library.Word"
begin

chapter \<open>The model\<close>

section \<open>The random number service (random.h)\<close>

text \<open>
  \<open>Random::uniform(min, max)\<close> builds a fresh \<open>std::uniform_real_distribution\<close> and
  applies it to the one shared engine, which it advances. The engine and the
  distribution belong to the C++ standard library, so the draw is a parameter
  \<open>uniform\<close>: from the bounds and the state of the engine to the value drawn and the
  state after the draw.
\<close>

type_synonym ('w, 'e) uniform_draw = "'w \<Rightarrow> 'w \<Rightarrow> 'e \<Rightarrow> 'w \<times> 'e"

text \<open>
  \<open>Random::set_seed(seed)\<close> is \<open>engine.seed(seed)\<close>: the standard library puts the
  engine into the state that the seed determines, \<open>seed_state seed\<close>.
\<close>

definition set_seed :: "('s \<Rightarrow> 'e) \<Rightarrow> 's \<Rightarrow> 'e \<Rightarrow> 'e" where
  "set_seed seed_state seed engine = seed_state seed"

text \<open>
  An engine for running the definitions: the state is the list of the numbers of
  \<open>[0, 1)\<close> still to come, and a draw scales the next one into \<open>[min, max)\<close>.
\<close>

fun replay_uniform :: "(real, real list) uniform_draw" where
  "replay_uniform lo hi [] = (lo, [])"
| "replay_uniform lo hi (u # us) = (lo + u * (hi - lo), us)"

text \<open>
  \<open>Random::expo(A, x1, x2)\<close>, on the reals; \<open>std::log\<close> and \<open>std::exp\<close> are \<open>ln\<close> and
  \<open>exp\<close>. \<open>numeric_limits_min\<close> is \<open>std::numeric_limits<T>::min()\<close> of the
  instantiation, \<open>1 / 2 ^ 1022\<close> for \<open>double\<close>. The \<open>do ... while\<close> loop draws until the
  condition fails and need not end: a run that never leaves it is \<open>None\<close>.
\<close>

partial_function (option) expo_loop ::
  "(real, 'e) uniform_draw \<Rightarrow> real \<Rightarrow> real \<Rightarrow> real \<Rightarrow> real \<Rightarrow> real \<Rightarrow> 'e
     \<Rightarrow> (real \<times> 'e) option" where
  "expo_loop uniform A x1 x2 r1 r2 engine =
     (case uniform r1 r2 engine of (u, engine') \<Rightarrow>
        (let x = ln u / A
         in if (of_bool (x < x1) + of_bool (x < x2) :: int) \<noteq> 1
            then expo_loop uniform A x1 x2 r1 r2 engine'
            else Some (x, engine')))"

definition expo ::
  "real \<Rightarrow> (real, 'e) uniform_draw \<Rightarrow> real \<Rightarrow> real \<Rightarrow> real \<Rightarrow> 'e \<Rightarrow> (real \<times> 'e) option" where
  "expo numeric_limits_min uniform A x1 x2 engine =
     (let a1 = A * x1; a2 = A * x2;
          a_min = ln numeric_limits_min;
          r1 = (if a1 > a_min then exp a1 else 0);
          r2 = (if a2 > a_min then exp a2 else 0)
      in expo_loop uniform A x1 x2 r1 r2 engine)"

section \<open>The Bessel sampler (random.cc)\<close>

text \<open>
  The members of \<open>random::BesselSampler\<close> that \<open>random.cc\<close> uses: \<open>a_\<close>, \<open>N_\<close>,
  \<open>N_is_positive_\<close>, \<open>m_\<close>, \<open>mu_\<close>, \<open>sigma_\<close> and the discrete distribution \<open>dist_\<close>,
  held as its list of weights; a member \<open>x_\<close> is \<open>sampler_x\<close> here. The class is
  declared in a header that is not among the sources: \<open>N_\<close> is an \<open>int\<close>, as
  \<open>std::abs(fixed_difference)\<close>, the call \<open>r_(N_, a_)\<close> and the returned
  \<open>std::pair<int, int>\<close> have it, and the constants \<open>m_switch_method_\<close> and
  \<open>negligible_probability_\<close> are parameters. An \<open>int\<close> is a 32-bit word, with the
  wrap-around of the machine; a \<open>double\<close> is a real number. A failing \<open>assert\<close> is
  an error value; with \<open>NDEBUG\<close> defined an \<open>assert\<close> checks nothing.
\<close>

datatype assertion = assertion_failed string

record BesselSampler =
  sampler_a :: real
  sampler_N :: "32 word"
  sampler_N_is_positive :: bool
  sampler_m :: real
  sampler_mu :: real
  sampler_sigma :: real
  sampler_dist :: "real list"

text \<open>\<open>std::abs\<close> on \<open>int\<close>, and the conversion of an \<open>int\<close> to \<open>double\<close>.\<close>

definition int_abs :: "32 word \<Rightarrow> 32 word" where
  "int_abs n = (if n <s 0 then - n else n)"

definition int_to_double :: "32 word \<Rightarrow> real" where
  "int_to_double n = real_of_int (sint n)"

text \<open>
  \<open>BesselSampler::r_(n, a)\<close>: the loop \<open>for (i = 200; i > 0; i--)\<close> and the two
  assertions on its result.
\<close>

fun r_loop :: "real \<Rightarrow> 32 word \<Rightarrow> nat \<Rightarrow> real \<Rightarrow> real" where
  "r_loop a_inv n 0 res = res"
| "r_loop a_inv n (Suc i) res =
     r_loop a_inv n i (1 / (a_inv * 2 * int_to_double (n + of_nat (Suc i)) + res))"

definition sampler_r :: "bool \<Rightarrow> 32 word \<Rightarrow> real \<Rightarrow> assertion + real" where
  "sampler_r NDEBUG n a =
     (let a_inv = 1 / a;
          res = r_loop a_inv n 200 0
      in if \<not> NDEBUG \<and>
            \<not> (a / (sqrt (a * a + int_to_double ((n + 1) * (n + 1))) + int_to_double n + 1) \<le> res)
         then Inl (assertion_failed ''a / (std::sqrt(a * a + (n + 1) * (n + 1)) + n + 1) <= res'')
         else if \<not> NDEBUG \<and>
                 \<not> (res \<le> a / (sqrt (a * a + int_to_double (n * n)) + int_to_double n))
         then Inl (assertion_failed ''res <= a / (std::sqrt(a * a + n * n) + n)'')
         else Inr res)"

text \<open>
  The \<open>do ... while (wi > negligible_probability_)\<close> loop of the constructor, which
  returns the list \<open>probabilities\<close> and \<open>sum\<close> (here \<open>sum_wi\<close>). A run that never
  leaves the loop is \<open>None\<close>.
\<close>

partial_function (option) probabilities_loop ::
  "real \<Rightarrow> real \<Rightarrow> 32 word \<Rightarrow> real \<Rightarrow> real \<Rightarrow> 32 word \<Rightarrow> real list \<Rightarrow> (real list \<times> real) option" where
  "probabilities_loop negligible_probability a N wi sum_wi i probabilities =
     (let sum_wi = sum_wi + wi;
          probabilities = probabilities @ [wi];
          wi = wi * (0.25 * a * a / int_to_double (i + 1) / int_to_double (N + i + 1));
          i = i + 1
      in if wi > negligible_probability
         then probabilities_loop negligible_probability a N wi sum_wi i probabilities
         else Some (probabilities, sum_wi))"

text \<open>
  The constructor. The member initialisers set \<open>a_\<close>, \<open>N_\<close> and \<open>N_is_positive_\<close>; the
  body checks the two means and sets \<open>m_\<close>, then \<open>mu_\<close> and \<open>sigma_\<close>, or the weights
  of \<open>dist_\<close>. The loop that divides by \<open>sum\<close> works on copies of the probabilities
  and changes nothing. The direct-sampling branch leaves \<open>mu_\<close> and \<open>sigma_\<close> as they
  were before the constructor ran: \<open>mu_before\<close>, \<open>sigma_before\<close>.
\<close>

definition BesselSampler_init ::
  "bool \<Rightarrow> real \<Rightarrow> real \<Rightarrow> real \<Rightarrow> real \<Rightarrow> real \<Rightarrow> real \<Rightarrow> 32 word
     \<Rightarrow> (assertion + BesselSampler) option" where
  "BesselSampler_init NDEBUG m_switch_method negligible_probability mu_before sigma_before
       poisson_mean1 poisson_mean2 fixed_difference =
     (let a = 2.0 * sqrt (poisson_mean1 * poisson_mean2);
          N = int_abs fixed_difference;
          N_is_positive = (0 \<le>s fixed_difference)
      in if \<not> NDEBUG \<and> \<not> poisson_mean1 \<ge> 0.0
         then Some (Inl (assertion_failed ''poisson_mean1 >= 0.0''))
         else if \<not> NDEBUG \<and> \<not> poisson_mean2 \<ge> 0.0
         then Some (Inl (assertion_failed ''poisson_mean2 >= 0.0''))
         else
           (let m = 0.5 * (sqrt (a * a + int_to_double (N * N)) - int_to_double N)
            in if m \<ge> m_switch_method
               then (case sampler_r NDEBUG N a of
                       Inl failed \<Rightarrow> Some (Inl failed)
                     | Inr r1 \<Rightarrow>
                         (let mu = 0.5 * a * r1
                          in case sampler_r NDEBUG (N + 1) a of
                               Inl failed \<Rightarrow> Some (Inl failed)
                             | Inr r2 \<Rightarrow>
                                 (let mean_sqr = mu * (1.0 + 0.5 * a * r2);
                                      sigma = sqrt (mean_sqr - mu * mu)
                                  in Some (Inr \<lparr>sampler_a = a, sampler_N = N,
                                        sampler_N_is_positive = N_is_positive, sampler_m = m,
                                        sampler_mu = mu, sampler_sigma = sigma,
                                        sampler_dist = []\<rparr>))))
               else (case probabilities_loop negligible_probability a N 1.0 0.0 0 [] of
                       None \<Rightarrow> None
                     | Some (probabilities, sum_wi) \<Rightarrow>
                         Some (Inr \<lparr>sampler_a = a, sampler_N = N,
                               sampler_N_is_positive = N_is_positive, sampler_m = m,
                               sampler_mu = mu_before, sampler_sigma = sigma_before,
                               sampler_dist = probabilities\<rparr>))))"

text \<open>
  \<open>std::round\<close> rounds halves away from zero; the conversion of a \<open>double\<close> to \<open>int\<close>
  drops the fraction.
\<close>

definition std_round :: "real \<Rightarrow> real" where
  "std_round x = (if x \<ge> 0 then of_int \<lfloor>x + 1 / 2\<rfloor> else of_int \<lceil>x - 1 / 2\<rceil>)"

definition double_to_int :: "real \<Rightarrow> 32 word" where
  "double_to_int x = word_of_int (if x \<ge> 0 then \<lfloor>x\<rfloor> else \<lceil>x\<rceil>)"

text \<open>
  \<open>BesselSampler::sample()\<close>. The draws \<open>random::normal(mu, sigma)\<close> and \<open>dist_()\<close> read
  and advance the shared engine: they are the parameters \<open>normal\<close> and \<open>discrete\<close>.
\<close>

definition sample ::
  "(real \<Rightarrow> real \<Rightarrow> 'e \<Rightarrow> real \<times> 'e) \<Rightarrow> (real list \<Rightarrow> 'e \<Rightarrow> 32 word \<times> 'e) \<Rightarrow> real
     \<Rightarrow> BesselSampler \<Rightarrow> 'e \<Rightarrow> (32 word \<times> 32 word) \<times> 'e" where
  "sample normal discrete m_switch_method s engine =
     (case (if sampler_m s \<ge> m_switch_method
            then (case normal (sampler_mu s) (sampler_sigma s) engine of
                    (x, engine') \<Rightarrow> (double_to_int (std_round x), engine'))
            else discrete (sampler_dist s) engine)
      of (N_smaller, engine') \<Rightarrow>
        (if sampler_N_is_positive s
         then (N_smaller + sampler_N s, N_smaller)
         else (N_smaller, N_smaller + sampler_N s),
         engine'))"

section \<open>Process branches and the channel list of an Action (action.h)\<close>

text \<open>
  Modelled from the spec: the enumeration \<open>ProcessType\<close> is declared in
  \<open>processbranch.h\<close>, which is not among the sources. \<open>action.h\<close> names only its
  member \<open>String\<close>; the other members follow the channel kinds the specification lists
  (elastic, resonance formation, inelastic 2-to-2, string excitation, decay).
\<close>

datatype ProcessType = Elastic | TwoToOne | TwoToTwo | String | Decay

text \<open>
  A \<open>ProcessBranch\<close> as \<open>action.h\<close> reads it: \<open>weight()\<close>, \<open>get_type()\<close> and
  \<open>particle_number()\<close>, the length of the list of final-state particle types.
  Weights are C++ \<open>float\<close>s. The functions below use nothing of them but \<open>0\<close>, \<open>+\<close>
  and the comparisons, so the weight type \<open>'w\<close> is left open: every statement holds
  for any addition, rounding or not.
\<close>

record ('p, 'w) ProcessBranch =
  particle_list :: "'p list"
  weight :: 'w
  get_type :: ProcessType

definition particle_number :: "('p, 'w) ProcessBranch \<Rightarrow> nat" where
  "particle_number p = length (particle_list p)"

type_synonym ('p, 'w) ProcessBranchList = "('p, 'w) ProcessBranch list"

text \<open>
  \<open>Action::add_process(p, subprocesses, total_weight)\<close>. The two reference parameters
  are the pair that is returned updated. The constant \<open>really_small\<close> is declared in
  \<open>constants.h\<close>, which is not among the sources; it is the first parameter.
\<close>

definition add_process ::
  "'w::{plus,ord} \<Rightarrow> ('p, 'w) ProcessBranch \<Rightarrow> ('p, 'w) ProcessBranchList \<times> 'w
     \<Rightarrow> ('p, 'w) ProcessBranchList \<times> 'w" where
  "add_process really_small p st =
     (case st of (subprocesses, total_weight) \<Rightarrow>
        if weight p > really_small
        then (subprocesses @ [p], total_weight + weight p)
        else (subprocesses, total_weight))"

text \<open>The loop \<open>for (auto &proc : subprocesses) total_weight += proc->weight()\<close>.\<close>

fun add_weights :: "'w::plus \<Rightarrow> ('p, 'w) ProcessBranchList \<Rightarrow> 'w" where
  "add_weights total_weight [] = total_weight"
| "add_weights total_weight (proc # rest) = add_weights (total_weight + weight proc) rest"

text \<open>
  The loop of the \<open>else\<close> branch of \<open>add_processes\<close>: each element of \<open>pv\<close> is counted
  and appended.
\<close>

fun append_processes ::
  "('p, 'w::plus) ProcessBranchList \<Rightarrow> ('p, 'w) ProcessBranchList \<times> 'w
     \<Rightarrow> ('p, 'w) ProcessBranchList \<times> 'w" where
  "append_processes [] st = st"
| "append_processes (proc # rest) st =
     (case st of (subprocesses, total_weight) \<Rightarrow>
        append_processes rest (subprocesses @ [proc], total_weight + weight proc))"

text \<open>\<open>Action::add_processes(pv, subprocesses, total_weight)\<close>: there is no test of the weight.\<close>

definition add_processes ::
  "('p, 'w::plus) ProcessBranchList \<Rightarrow> ('p, 'w) ProcessBranchList \<times> 'w
     \<Rightarrow> ('p, 'w) ProcessBranchList \<times> 'w" where
  "add_processes pv st =
     (case st of (subprocesses, total_weight) \<Rightarrow>
        if subprocesses = [] then (pv, add_weights total_weight pv)
        else append_processes pv (subprocesses, total_weight))"

text \<open>
  A sequence of calls on one Action. A fresh Action has no subprocess and total weight
  \<open>0\<close> (the constructors that initialise the two are not among the sources).
\<close>

datatype ('p, 'w) add_call =
  AddProcess "('p, 'w) ProcessBranch"
| AddProcesses "('p, 'w) ProcessBranchList"

fun run_call ::
  "'w::{plus,ord} \<Rightarrow> ('p, 'w) add_call \<Rightarrow> ('p, 'w) ProcessBranchList \<times> 'w
     \<Rightarrow> ('p, 'w) ProcessBranchList \<times> 'w" where
  "run_call really_small (AddProcess p) st = add_process really_small p st"
| "run_call really_small (AddProcesses pv) st = add_processes pv st"

fun run_calls ::
  "'w::{plus,ord} \<Rightarrow> ('p, 'w) add_call list \<Rightarrow> ('p, 'w) ProcessBranchList \<times> 'w
     \<Rightarrow> ('p, 'w) ProcessBranchList \<times> 'w" where
  "run_calls really_small [] st = st"
| "run_calls really_small (c # cs) st = run_calls really_small cs (run_call really_small c st)"

definition fresh_action :: "('p, 'w::zero) ProcessBranchList \<times> 'w" where
  "fresh_action = ([], 0)"

text \<open>
  The total weight is the sum of the weights of the retained channels, added in list
  order from \<open>0\<close>, after every call.
\<close>

definition total_weight_ok :: "('p, 'w::{plus,zero}) ProcessBranchList \<times> 'w \<Rightarrow> bool" where
  "total_weight_ok st = (snd st = add_weights 0 (fst st))"

section \<open>Channel selection (Action::choose_channel)\<close>

text \<open>
  What \<open>choose_channel\<close> does when the loop ends: the values handed to \<open>log.fatal\<close>,
  in order, and the exception thrown.
\<close>

datatype 'w log_value = source_location | Text string | Count nat | Value 'w

datatype exception = runtime_error string

record 'w fatal =
  logged :: "'w log_value list"
  thrown :: exception

text \<open>
  The loop over \<open>subprocesses\<close>. \<open>i\<close> is the position of \<open>proc\<close> in the list: the
  pointer \<open>proc.get()\<close> the source returns is the channel at that position. At the end
  of the list the loop leaves \<open>weight_sum\<close>.
\<close>

fun choose_channel_loop ::
  "'w::{plus,ord} \<Rightarrow> 'w \<Rightarrow> nat \<Rightarrow> ('p, 'w) ProcessBranchList \<Rightarrow> 'w + nat" where
  "choose_channel_loop random_weight weight_sum i [] = Inl weight_sum"
| "choose_channel_loop random_weight weight_sum i (proc # rest) =
     (if particle_number proc < 1 \<and> get_type proc \<noteq> String
      then choose_channel_loop random_weight weight_sum (Suc i) rest
      else if random_weight \<le> weight_sum + weight proc then Inr i
      else choose_channel_loop random_weight (weight_sum + weight proc) (Suc i) rest)"

definition choose_channel ::
  "('w::{plus,zero,ord}, 'e) uniform_draw \<Rightarrow> ('p, 'w) ProcessBranchList \<Rightarrow> 'w \<Rightarrow> 'e
     \<Rightarrow> ('w fatal + nat) \<times> 'e" where
  "choose_channel uniform subprocesses total_weight engine =
     (case uniform 0 total_weight engine of (random_weight, engine') \<Rightarrow>
        (case choose_channel_loop random_weight 0 0 subprocesses of
           Inr i \<Rightarrow> (Inr i, engine')
         | Inl weight_sum \<Rightarrow>
             (Inl \<lparr>logged = [source_location, Text ''Problem in choose_channel: '',
                              Count (length subprocesses), Text '' '', Value weight_sum, Text '' '', Value total_weight,
                              Text '' '', Value random_weight, Text [CHR 0x0A]],
                    thrown = runtime_error ''problem in choose_channel''\<rparr>,
              engine')))"

text \<open>
  The channels the loop does not pass over, and the weight it has accumulated once it
  has gone through a list of channels starting from \<open>weight_sum\<close>.
\<close>

definition considered :: "('p, 'w) ProcessBranch \<Rightarrow> bool" where
  "considered proc = (\<not> (particle_number proc < 1 \<and> get_type proc \<noteq> String))"

fun accumulated :: "'w::plus \<Rightarrow> ('p, 'w) ProcessBranchList \<Rightarrow> 'w" where
  "accumulated weight_sum [] = weight_sum"
| "accumulated weight_sum (proc # rest) =
     accumulated (if considered proc then weight_sum + weight proc else weight_sum) rest"

text \<open>
  \<open>first_reached random_weight weight_sum xs n\<close>: the channel at position \<open>n\<close> of \<open>xs\<close> is
  considered, the weight accumulated up to and including it meets or exceeds the draw,
  and no considered channel before it does.
  \<open>never_reached\<close>: no considered channel of \<open>xs\<close> does.
\<close>

definition first_reached ::
  "'w::{plus,ord} \<Rightarrow> 'w \<Rightarrow> ('p, 'w) ProcessBranchList \<Rightarrow> nat \<Rightarrow> bool" where
  "first_reached random_weight weight_sum xs n \<longleftrightarrow>
     n < length xs \<and> considered (xs ! n) \<and>
     random_weight \<le> accumulated weight_sum (take (Suc n) xs) \<and>
     (\<forall>j<n. considered (xs ! j) \<longrightarrow> \<not> random_weight \<le> accumulated weight_sum (take (Suc j) xs))"

definition never_reached ::
  "'w::{plus,ord} \<Rightarrow> 'w \<Rightarrow> ('p, 'w) ProcessBranchList \<Rightarrow> bool" where
  "never_reached random_weight weight_sum xs \<longleftrightarrow>
     (\<forall>j<length xs. considered (xs ! j) \<longrightarrow>
        \<not> random_weight \<le> accumulated weight_sum (take (Suc j) xs))"

text \<open>
  The claim C2 in its own words: the cumulative weight of a channel is the sum of the
  weights of all channels up to and including it, and the selected channel is the first
  one whose cumulative weight meets or exceeds the draw.
\<close>

definition cumulative_weight :: "('p, 'w::{plus,zero}) ProcessBranchList \<Rightarrow> nat \<Rightarrow> 'w" where
  "cumulative_weight xs n = add_weights 0 (take (Suc n) xs)"

definition first_meeting_draw ::
  "'w::{plus,zero,ord} \<Rightarrow> ('p, 'w) ProcessBranchList \<Rightarrow> nat \<Rightarrow> bool" where
  "first_meeting_draw random_weight xs n \<longleftrightarrow>
     n < length xs \<and> random_weight \<le> cumulative_weight xs n \<and>
     (\<forall>j<n. \<not> random_weight \<le> cumulative_weight xs j)"

section \<open>Ordering of Actions (Action::operator<)\<close>

text \<open>
  The members of \<open>Action\<close>, and of \<open>ScatterAction\<close> and \<open>DecayAction\<close>, which add
  their channel list and the total weight (cross section, decay width) to the base
  class. A member \<open>m_\<close> of the source is the field \<open>m\<close> here (a name of Isabelle does
  not end in an underscore). \<open>time_of_execution\<close> is a \<open>float\<close>; comparing two floats
  that are numbers is comparing the reals they stand for.
\<close>

record 'pd Action =
  incoming_particles :: "'pd list"
  outgoing_particles :: "'pd list"
  time_of_execution :: real
  process_type :: ProcessType

record ('pd, 'p, 'w) ScatterAction = "'pd Action" +
  collision_channels :: "('p, 'w) ProcessBranchList"
  total_cross_section :: 'w

record ('pd, 'p, 'w) DecayAction = "'pd Action" +
  decay_channels :: "('p, 'w) ProcessBranchList"
  total_width :: 'w

definition Action_less :: "('pd, 'a) Action_scheme \<Rightarrow> ('pd, 'b) Action_scheme \<Rightarrow> bool" where
  "Action_less lhs rhs = (time_of_execution lhs < time_of_execution rhs)"

definition cross_section :: "('pd, 'p, 'w, 'a) ScatterAction_scheme \<Rightarrow> 'w" where
  "cross_section action = total_cross_section action"

section \<open>Binary collision output (binaryoutput.cc)\<close>

text \<open>
  What \<open>std::fwrite\<close> hands to the stream, as typed items: the characters of a block
  tag, a 32-bit unsigned or signed integer, a double. A stream holds what has been
  written and not yet flushed, and what has reached the disk; \<open>std::fflush\<close> moves the
  former to the latter.
\<close>

datatype item = Chars string | UInt32 nat | Int32 int | Double real

record stream =
  buffered :: "item list"
  on_disk :: "item list"

definition fwrite :: "item list \<Rightarrow> stream \<Rightarrow> stream" where
  "fwrite xs f = f\<lparr>buffered := buffered f @ xs\<rparr>"

definition fflush :: "stream \<Rightarrow> stream" where
  "fflush f = f\<lparr>buffered := [], on_disk := on_disk f @ buffered f\<rparr>"

record BinaryOutputBase =
  "file" :: stream
  extended :: bool

record BinaryOutputCollisions = BinaryOutputBase +
  print_start_end :: bool

text \<open>
  The particle data the output reads. \<open>pdgcode\<close>, \<open>p1\<close> and \<open>p2\<close> hold the value of
  \<open>get_decimal()\<close>, \<open>charge\<close> that of \<open>type().charge()\<close>, \<open>particle_id\<close> that of \<open>id()\<close>.
\<close>

record FourVector =
  x0 :: real
  x1 :: real
  x2 :: real
  x3 :: real

record HistoryData =
  collisions_per_particle :: int
  id_process :: nat
  origin_process_type :: ProcessType
  time_last_collision :: real
  p1 :: int
  p2 :: int

record ParticleData =
  position :: FourVector
  effective_mass :: real
  momentum :: FourVector
  pdgcode :: int
  particle_id :: int
  charge :: int
  get_history :: HistoryData
  formation_time :: real
  xsec_scaling_factor :: real

text \<open>
  The overloads of \<open>write\<close>. Those for the integer types are defined in
  \<open>binaryoutput.h\<close>, which is not among the sources; the format comment of
  \<open>binaryoutput.cc\<close> gives the type each one writes (\<open>uint32_t\<close> for a size and for a
  process type, \<open>int\<close> for a PDG code, an id, a charge and an event number).
\<close>

definition write_double :: "real \<Rightarrow> 'a BinaryOutputBase_scheme \<Rightarrow> 'a BinaryOutputBase_scheme" where
  "write_double x out = out\<lparr>file := fwrite [Double x] (file out)\<rparr>"

definition write_int32 :: "int \<Rightarrow> 'a BinaryOutputBase_scheme \<Rightarrow> 'a BinaryOutputBase_scheme" where
  "write_int32 x out = out\<lparr>file := fwrite [Int32 x] (file out)\<rparr>"

definition write_uint32 :: "nat \<Rightarrow> 'a BinaryOutputBase_scheme \<Rightarrow> 'a BinaryOutputBase_scheme" where
  "write_uint32 x out = out\<lparr>file := fwrite [UInt32 x] (file out)\<rparr>"

definition write_char :: "char \<Rightarrow> 'a BinaryOutputBase_scheme \<Rightarrow> 'a BinaryOutputBase_scheme" where
  "write_char c out = out\<lparr>file := fwrite [Chars [c]] (file out)\<rparr>"

definition write_FourVector ::
  "FourVector \<Rightarrow> 'a BinaryOutputBase_scheme \<Rightarrow> 'a BinaryOutputBase_scheme" where
  "write_FourVector v out =
     out\<lparr>file := fwrite [Double (x0 v), Double (x1 v), Double (x2 v), Double (x3 v)] (file out)\<rparr>"

text \<open>
  \<open>write_particledata\<close>. \<open>type_value\<close> is \<open>static_cast<uint32_t>\<close> on a process type:
  the values of the enumerators are not in the sources.
\<close>

definition write_particledata ::
  "(ProcessType \<Rightarrow> nat) \<Rightarrow> ParticleData \<Rightarrow> 'a BinaryOutputBase_scheme
     \<Rightarrow> 'a BinaryOutputBase_scheme" where
  "write_particledata type_value p out =
     (let out = write_FourVector (position p) out;
          mass = effective_mass p;
          out = out\<lparr>file := fwrite [Double mass] (file out)\<rparr>;
          out = write_FourVector (momentum p) out;
          out = write_int32 (pdgcode p) out;
          out = write_int32 (particle_id p) out;
          out = write_int32 (charge p) out
      in if extended out
         then (let history = get_history p;
                   out = write_int32 (collisions_per_particle history) out;
                   out = write_double (formation_time p) out;
                   out = write_double (xsec_scaling_factor p) out;
                   out = write_uint32 (id_process history) out;
                   out = write_uint32 (type_value (origin_process_type history)) out;
                   out = write_double (time_last_collision history) out;
                   out = write_int32 (p1 history) out;
                   out = write_int32 (p2 history) out
               in out)
         else out)"

text \<open>\<open>write(const Particles &)\<close> and \<open>write(const ParticleList &)\<close>: one line per particle.\<close>

fun write_particles ::
  "(ProcessType \<Rightarrow> nat) \<Rightarrow> ParticleData list \<Rightarrow> 'a BinaryOutputBase_scheme
     \<Rightarrow> 'a BinaryOutputBase_scheme" where
  "write_particles type_value [] out = out"
| "write_particles type_value (p # particles) out =
     write_particles type_value particles (write_particledata type_value p out)"

definition at_eventstart ::
  "(ProcessType \<Rightarrow> nat) \<Rightarrow> ParticleData list \<Rightarrow> int \<Rightarrow> BinaryOutputCollisions
     \<Rightarrow> BinaryOutputCollisions" where
  "at_eventstart type_value particles event_number out =
     (let pchar = CHR ''p''
      in if print_start_end out
         then (let out = write_char pchar out;
                   out = write_uint32 (length particles) out;
                   out = write_particles type_value particles out
               in out)
         else out)"

definition at_eventend ::
  "(ProcessType \<Rightarrow> nat) \<Rightarrow> ParticleData list \<Rightarrow> int \<Rightarrow> real \<Rightarrow> BinaryOutputCollisions
     \<Rightarrow> BinaryOutputCollisions" where
  "at_eventend type_value particles event_number impact_parameter out =
     (let pchar = CHR ''p'';
          out = (if print_start_end out
                 then (let out = write_char pchar out;
                           out = write_uint32 (length particles) out;
                           out = write_particles type_value particles out
                       in out)
                 else out);
          fchar = CHR ''f'';
          out = write_char fchar out;
          out = write_int32 event_number out;
          out = write_double impact_parameter out
      in out\<lparr>file := fflush (file out)\<rparr>)"

text \<open>
  \<open>at_interaction\<close>. \<open>get_total_weight\<close> and \<open>get_partial_weight\<close> are virtual functions
  of \<open>Action\<close>, implemented by the classes derived from it.
\<close>

definition at_interaction ::
  "(ProcessType \<Rightarrow> nat) \<Rightarrow> ((ParticleData, 'b) Action_scheme \<Rightarrow> real)
     \<Rightarrow> ((ParticleData, 'b) Action_scheme \<Rightarrow> real)
     \<Rightarrow> (ParticleData, 'b) Action_scheme \<Rightarrow> real \<Rightarrow> BinaryOutputCollisions
     \<Rightarrow> BinaryOutputCollisions" where
  "at_interaction type_value get_total_weight get_partial_weight action density out =
     (let ichar = CHR ''i'';
          out = write_char ichar out;
          out = write_uint32 (length (incoming_particles action)) out;
          out = write_uint32 (length (outgoing_particles action)) out;
          out = out\<lparr>file := fwrite [Double density] (file out)\<rparr>;
          weight = get_total_weight action;
          out = out\<lparr>file := fwrite [Double weight] (file out)\<rparr>;
          partial_weight = get_partial_weight action;
          out = out\<lparr>file := fwrite [Double partial_weight] (file out)\<rparr>;
          type = type_value (process_type action);
          out = out\<lparr>file := fwrite [UInt32 type] (file out)\<rparr>;
          out = write_particles type_value (incoming_particles action) out;
          out = write_particles type_value (outgoing_particles action) out
      in out)"

text \<open>
  The particle line and the extended particle line of the format comment:
  \<open>t x y z mass p0 px py pz pdg ID charge\<close>, followed in the extended format by
  \<open>ncoll form_time xsecfac proc_id_origin proc_type_origin time_last_coll pdg_mother1
  pdg_mother2\<close>; and the \<open>'p'\<close> block of a particle list.
\<close>

definition particle_line :: "(ProcessType \<Rightarrow> nat) \<Rightarrow> bool \<Rightarrow> ParticleData \<Rightarrow> item list" where
  "particle_line type_value ext p =
     [Double (x0 (position p)), Double (x1 (position p)), Double (x2 (position p)),
      Double (x3 (position p)), Double (effective_mass p),
      Double (x0 (momentum p)), Double (x1 (momentum p)), Double (x2 (momentum p)),
      Double (x3 (momentum p)), Int32 (pdgcode p), Int32 (particle_id p), Int32 (charge p)]
     @ (if ext
        then [Int32 (collisions_per_particle (get_history p)), Double (formation_time p),
              Double (xsec_scaling_factor p), UInt32 (id_process (get_history p)),
              UInt32 (type_value (origin_process_type (get_history p))),
              Double (time_last_collision (get_history p)),
              Int32 (p1 (get_history p)), Int32 (p2 (get_history p))]
        else [])"

definition particle_block ::
  "(ProcessType \<Rightarrow> nat) \<Rightarrow> bool \<Rightarrow> ParticleData list \<Rightarrow> item list" where
  "particle_block type_value ext particles =
     [Chars ''p'', UInt32 (length particles)]
     @ concat (map (particle_line type_value ext) particles)"

section \<open>String excitation (pythia.cc)\<close>

text \<open>
  Pythia is an external library, present only when the build defines \<open>PYTHIA_FOUND\<close>.
  What the function asks of it: the settings handed to \<open>readString\<close>, in order (the
  number or code streamed into the text of a setting is kept as a value), and the
  event that \<open>init()\<close> and \<open>next()\<close> then produce, a list of entries.
\<close>

datatype pythia_setting =
  Setting string
| RandomSeed real
| BeamsIdA int
| BeamsIdB int
| BeamsECM real

record pythia_entry =
  isFinal :: bool
  isHadron :: bool
  entry_id :: int
  entry_e :: real
  entry_px :: real
  entry_py :: real
  entry_pz :: real

text \<open>
  \<open>sortfunc\<close>, on two particle lists as the source declares it: the two loops return
  at the first pair, and with an empty list the function ends without a \<open>return\<close>
  (\<open>None\<close>). \<open>std::sort\<close> calls it on two particles, each taken as a one-element list.
\<close>

fun sortfunc :: "ParticleData list \<Rightarrow> ParticleData list \<Rightarrow> bool option" where
  "sortfunc (d1 # rest1) (d2 # rest2) =
     (if x3 (momentum d1) < x3 (momentum d2) then Some True else Some False)"
| "sortfunc p1_list p2_list = None"

text \<open>
  What a call of \<open>string_excitation\<close> can end in other than a particle list: the
  exception it throws, or the read of \<open>incoming_particles_[0]\<close> or \<open>[1]\<close> beyond the end
  of the list, which \<open>operator[]\<close> does not check.
\<close>

datatype string_excitation_failure = throws exception | out_of_range_read

text \<open>
  \<open>string_excitation(incoming_particles_, formation_time_)\<close>; the two parameters are
  \<open>incoming_particles_arg\<close> and \<open>formation_time_arg\<close> here. Its parameters beyond
  those of the source: \<open>PYTHIA_FOUND\<close>, whether the macro is defined; \<open>canonical\<close>,
  \<open>Random::canonical()\<close> on the shared engine; \<open>pythia\<close>, the library; \<open>abs_sum\<close>, the
  \<open>abs()\<close> of the sum of two four-vectors, and \<open>new_particle\<close>, the particle data of
  \<open>ParticleType::find\<close> for a PDG code (the classes are not among the sources);
  \<open>std_sort\<close>, \<open>std::sort\<close> with a comparison.
\<close>

definition string_excitation ::
  "bool \<Rightarrow> ('e \<Rightarrow> real \<times> 'e) \<Rightarrow> (pythia_setting list \<Rightarrow> pythia_entry list)
     \<Rightarrow> (FourVector \<Rightarrow> FourVector \<Rightarrow> real) \<Rightarrow> (int \<Rightarrow> ParticleData)
     \<Rightarrow> ((ParticleData \<Rightarrow> ParticleData \<Rightarrow> bool) \<Rightarrow> ParticleData list \<Rightarrow> ParticleData list)
     \<Rightarrow> ParticleData list \<Rightarrow> real \<Rightarrow> 'e
     \<Rightarrow> (string_excitation_failure + ParticleData list) \<times> 'e" where
  "string_excitation PYTHIA_FOUND canonical pythia abs_sum new_particle std_sort
       incoming_particles_arg formation_time_arg engine =
     (if PYTHIA_FOUND
      then (case canonical engine of (seed, engine') \<Rightarrow>
        (case incoming_particles_arg of
           particle0 # particle1 # others \<Rightarrow>
             (let sqrts = abs_sum (momentum particle0) (momentum particle1);
                  event = pythia
                    [Setting ''SoftQCD:inelastic = on'', Setting ''Print:quiet = on'',
                     Setting ''HadronLevel:Decay = off'', Setting ''Random:setSeed = on'',
                     RandomSeed seed, BeamsIdA (pdgcode particle0),
                     BeamsIdB (pdgcode particle1), BeamsECM sqrts];
                  new_intermediate_particles =
                    map (\<lambda>entry. (new_particle (entry_id entry))
                           \<lparr>momentum := \<lparr>x0 = entry_e entry, x1 = entry_px entry,
                                          x2 = entry_py entry, x3 = entry_pz entry\<rparr>\<rparr>)
                      (filter (\<lambda>entry. isFinal entry \<and> isHadron entry) event);
                  new_intermediate_particles =
                    std_sort (\<lambda>d1 d2. sortfunc [d1] [d2] = Some True) new_intermediate_particles;
                  outgoing_particles_list =
                    map (\<lambda>data. data\<lparr>formation_time := formation_time_arg,
                                      xsec_scaling_factor := 0.0\<rparr>)
                      new_intermediate_particles
              in (Inr outgoing_particles_list, engine'))
         | _ \<Rightarrow> (Inl out_of_range_read, engine')))
      else (Inl (throws (runtime_error ''Pythia 8 not available for string excitation'')),
            engine))"

section \<open>Values to run the definitions on\<close>

text \<open>
  Values to run the output on: a pion at rest whose history names the process
  \<open>id_process\<close>, an elastic scatter Action whose outgoing particles were stamped with
  that process id, and an empty output in the default (not extended) format.
\<close>

definition pion_of_process :: "nat \<Rightarrow> ParticleData" where
  "pion_of_process n =
     \<lparr>position = \<lparr>x0 = 0, x1 = 0, x2 = 0, x3 = 0\<rparr>, effective_mass = 138 / 1000,
      momentum = \<lparr>x0 = 138 / 1000, x1 = 0, x2 = 0, x3 = 0\<rparr>,
      pdgcode = 211, particle_id = 1, charge = 1,
      get_history = \<lparr>collisions_per_particle = 1, id_process = n, origin_process_type = Elastic,
                     time_last_collision = 1, p1 = 211, p2 = 2212\<rparr>,
      formation_time = 0, xsec_scaling_factor = 1\<rparr>"

definition scatter_of_process :: "nat \<Rightarrow> ParticleData Action" where
  "scatter_of_process n =
     \<lparr>incoming_particles = [pion_of_process 0, pion_of_process 0],
      outgoing_particles = [pion_of_process n, pion_of_process n],
      time_of_execution = 1, process_type = Elastic\<rparr>"

definition fresh_output :: "bool \<Rightarrow> bool \<Rightarrow> BinaryOutputCollisions" where
  "fresh_output ext pse =
     \<lparr>file = \<lparr>buffered = [], on_disk = []\<rparr>, extended = ext, print_start_end = pse\<rparr>"

chapter \<open>Properties\<close>

section \<open>The value \<open>expo\<close> returns\<close>

lemma expo_loop_exit:
  fixes x1 x2 :: real
  assumes "expo_loop uniform A x1 x2 r1 r2 engine = Some res"
  shows "(fst res < x1) \<noteq> (fst res < x2)"
  using assms
proof (induction rule: expo_loop.raw_induct [rotated 1, consumes 1])
  case (1 loop uniform A x1 x2 r1 r2 engine res)
  note IH = 1(1) and run = 1(2)
  obtain u engine' where draw: "uniform r1 r2 engine = (u, engine')"
    by (cases "uniform r1 r2 engine")
  show ?case
  proof (cases "(of_bool (ln u / A < x1) + of_bool (ln u / A < x2) :: int) \<noteq> 1")
    case True
    then have "loop uniform A x1 x2 r1 r2 engine' = Some res"
      using run draw by (simp add: Let_def)
    then show ?thesis by (rule IH)
  next
    case False
    then have "res = (ln u / A, engine')"
      using run draw by (simp add: Let_def)
    then show ?thesis using False by (auto split: if_splits)
  qed
qed

lemma expo_unit_interval:
  assumes "ln m < 0"
  shows "expo m replay_uniform 1 0 1 [0, 1 / 3] = Some (0, [1 / 3])"
proof -
  have "expo_loop replay_uniform 1 0 1 1 (exp 1) [0, 1 / 3] = Some (0, [1 / 3])"
    by (subst expo_loop.simps) simp
  then show ?thesis using assms by (simp add: expo_def)
qed

lemma ln_double_min: "ln (1 / 2 ^ 1022 :: real) < 0"
proof -
  have "(1 / 2 ^ 1022 :: real) < 1" "(0::real) < 1 / 2 ^ 1022" by simp_all
  then show ?thesis by (simp only: ln_less_zero)
qed

text \<open>
  C9. Whenever \<open>expo A x1 x2\<close> returns a value \<open>x\<close>, exactly one of \<open>x < x1\<close> and
  \<open>x < x2\<close> holds, that is \<open>min x1 x2 \<le> x < max x1 x2\<close>, whichever of \<open>x1\<close>, \<open>x2\<close> is
  the larger.
\<close>

theorem expo_between:
  fixes x1 x2 :: real
  assumes "expo numeric_limits_min uniform A x1 x2 engine = Some (x, engine')"
  shows "(x < x1) \<noteq> (x < x2) \<and> min x1 x2 \<le> x \<and> x < max x1 x2"
proof -
  from assms obtain r1 r2 where "expo_loop uniform A x1 x2 r1 r2 engine = Some (x, engine')"
    by (simp add: expo_def Let_def)
  then have "(x < x1) \<noteq> (x < x2)"
    using expo_loop_exit [of uniform A x1 x2 r1 r2 engine "(x, engine')"] by simp
  then show ?thesis by (auto simp: min_def max_def)
qed

theorem expo_between_witness:
  "expo (1 / 2 ^ 1022) replay_uniform 1 0 1 [0, 1 / 3] = Some (0, [1 / 3])
   \<and> ((0::real) < 0) \<noteq> ((0::real) < 1) \<and> min 0 1 \<le> (0::real) \<and> (0::real) < max 0 1"
proof -
  have run: "expo (1 / 2 ^ 1022) replay_uniform 1 0 1 [0, 1 / 3] = Some (0, [1 / 3])"
    by (rule expo_unit_interval [OF ln_double_min])
  show ?thesis by (rule conjI [OF run expo_between [OF run]])
qed

section \<open>The fixed difference of the Bessel sampler\<close>

lemma BesselSampler_init_N:
  "BesselSampler_init ndebug msw negl mu0 sigma0 mean1 mean2 d = Some (Inr s) \<Longrightarrow>
     sampler_N s = int_abs d \<and> sampler_N_is_positive s = (0 \<le>s d)"
  by (auto simp: BesselSampler_init_def Let_def split: if_splits sum.splits option.splits)

lemma sample_difference:
  "sampler_N s = int_abs d \<Longrightarrow> sampler_N_is_positive s = (0 \<le>s d) \<Longrightarrow>
     fst (fst (sample normal discrete msw s engine))
       - snd (fst (sample normal discrete msw s engine)) = d"
  by (auto simp: sample_def int_abs_def word_sle_eq word_sless_alt split: prod.splits)

lemma BesselSampler_init_nonnegative_means:
  "BesselSampler_init False msw negl mu0 sigma0 mean1 mean2 d = Some (Inr s) \<Longrightarrow>
     0 \<le> mean1 \<and> 0 \<le> mean2"
  by (auto simp: BesselSampler_init_def Let_def split: if_splits)

lemma probabilities_loop_a0:
  "0 \<le> negl \<Longrightarrow> probabilities_loop negl 0 N 1 0 0 [] = Some ([1], 1)"
  by (subst probabilities_loop.simps) simp

lemma BesselSampler_init_example:
  "BesselSampler_init False 6 (1 / 10 ^ 12) 0 0 0 0 (- 2)
     = Some (Inr \<lparr>sampler_a = 0, sampler_N = 2, sampler_N_is_positive = False, sampler_m = 0,
                  sampler_mu = 0, sampler_sigma = 0, sampler_dist = [1]\<rparr>)"
  by (simp add: BesselSampler_init_def int_abs_def int_to_double_def probabilities_loop_a0
        word_sle_eq word_sless_alt)

lemma sample_example:
  "sample (\<lambda>mu sigma e. (mu, e)) (\<lambda>ws e. (5, e)) 6
      \<lparr>sampler_a = 0, sampler_N = 2, sampler_N_is_positive = False, sampler_m = 0,
       sampler_mu = 0, sampler_sigma = 0, sampler_dist = [1]\<rparr> () = ((5, 7), ())"
  by (simp add: sample_def)

text \<open>
  The Gaussian branch is reached too: with both means \<open>9\<close> and the difference \<open>0\<close>,
  \<open>m_\<close> is \<open>9\<close>, above the switch at \<open>6\<close>, and a normal draw of \<open>3.5\<close> gives the
  pair \<open>(4, 4)\<close>.
\<close>

lemma sqrt_81: "sqrt 81 = 9"
  by (rule real_sqrt_unique) simp_all

lemma sqrt_324: "sqrt 324 = 18"
  by (rule real_sqrt_unique) simp_all

lemma BesselSampler_init_gaussian_example:
  "\<exists>s. BesselSampler_init True 6 (1 / 10 ^ 12) 0 0 9 9 0 = Some (Inr s)
       \<and> sampler_m s = 9 \<and> sampler_N s = 0 \<and> sampler_N_is_positive s"
  by (simp add: BesselSampler_init_def sampler_r_def Let_def int_abs_def int_to_double_def
        sqrt_81 sqrt_324 del: r_loop.simps)

lemma sample_gaussian_example:
  "sampler_m s = 9 \<Longrightarrow> sampler_N s = 0 \<Longrightarrow> sampler_N_is_positive s \<Longrightarrow>
     sample (\<lambda>mu sigma e. (7 / 2, e)) discrete 6 s () = ((4, 4), ())"
  by (simp add: sample_def std_round_def double_to_int_def)

text \<open>
  C4. For every sampler the constructor builds (with two non-negative means, when the
  assertions are compiled in) from the fixed difference \<open>d\<close>, every pair
  \<open>(first, second)\<close> that \<open>sample\<close> returns has \<open>first - second = d\<close> in \<open>int\<close>
  arithmetic, in the Gaussian branch and in the direct-sampling branch, whatever the
  draws are.
\<close>

theorem BesselSampler_fixed_difference:
  "BesselSampler_init NDEBUG m_switch_method negligible_probability mu_before sigma_before
       poisson_mean1 poisson_mean2 fixed_difference = Some (Inr s)
     \<Longrightarrow> sample normal discrete m_switch_method s engine = ((first, second), engine')
     \<Longrightarrow> first - second = fixed_difference"
  using BesselSampler_init_N
    [of NDEBUG m_switch_method negligible_probability mu_before sigma_before
        poisson_mean1 poisson_mean2 fixed_difference s]
    sample_difference [of s fixed_difference normal discrete m_switch_method engine]
  by simp

theorem BesselSampler_fixed_difference_witness:
  "BesselSampler_init False 6 (1 / 10 ^ 12) 0 0 0 0 (- 2)
     = Some (Inr \<lparr>sampler_a = 0, sampler_N = 2, sampler_N_is_positive = False, sampler_m = 0,
                  sampler_mu = 0, sampler_sigma = 0, sampler_dist = [1]\<rparr>)
   \<and> sample (\<lambda>mu sigma e. (mu, e)) (\<lambda>ws e. (5, e)) 6
        \<lparr>sampler_a = 0, sampler_N = 2, sampler_N_is_positive = False, sampler_m = 0,
         sampler_mu = 0, sampler_sigma = 0, sampler_dist = [1]\<rparr> () = ((5, 7), ())
   \<and> (5 :: 32 word) - 7 = - 2"
  using BesselSampler_init_example sample_example
    BesselSampler_fixed_difference [OF BesselSampler_init_example sample_example]
  by blast

section \<open>The cached total weight\<close>

lemma add_weights_snoc:
  "add_weights t (xs @ [p]) = add_weights t xs + weight p"
  by (induction xs arbitrary: t) simp_all

lemma append_processes_eq:
  "append_processes pv (subs, add_weights t subs) = (subs @ pv, add_weights t (subs @ pv))"
proof (induction pv arbitrary: subs)
  case Nil
  show ?case by simp
next
  case (Cons proc rest)
  have "append_processes (proc # rest) (subs, add_weights t subs)
          = append_processes rest (subs @ [proc], add_weights t (subs @ [proc]))"
    by (simp add: add_weights_snoc)
  also have "\<dots> = ((subs @ [proc]) @ rest, add_weights t ((subs @ [proc]) @ rest))"
    by (rule Cons.IH)
  finally show ?case by simp
qed

lemma add_process_total_weight_ok:
  "total_weight_ok st \<Longrightarrow> total_weight_ok (add_process really_small p st)"
  by (cases st) (simp add: total_weight_ok_def add_process_def add_weights_snoc)

lemma add_processes_total_weight_ok:
  "total_weight_ok st \<Longrightarrow> total_weight_ok (add_processes pv st)"
  by (cases st) (simp add: total_weight_ok_def add_processes_def append_processes_eq)

lemma run_calls_total_weight_ok:
  "total_weight_ok st \<Longrightarrow> total_weight_ok (run_calls really_small cs st)"
proof (induction cs arbitrary: st)
  case Nil
  then show ?case by simp
next
  case (Cons c cs)
  have "total_weight_ok (run_call really_small c st)"
    using Cons.prems
    by (cases c) (simp_all add: add_process_total_weight_ok add_processes_total_weight_ok)
  then show ?case by (simp add: Cons.IH)
qed

lemma total_weight_is_sum:
  "snd (run_calls really_small cs fresh_action)
     = add_weights 0 (fst (run_calls really_small cs fresh_action))"
  using run_calls_total_weight_ok [of fresh_action really_small cs]
  by (simp add: total_weight_ok_def fresh_action_def)

lemma add_process_discards:
  "\<not> weight p > really_small \<Longrightarrow> add_process really_small p st = st"
  by (cases st) (simp add: add_process_def)

text \<open>
  C1. The claim: after any sequence of \<open>add_process\<close> / \<open>add_processes\<close> calls the total
  weight is the sum of the retained channels' weights, and a channel whose weight is at
  or below \<open>really_small\<close> is discarded at insertion and never counted. The first half
  holds (\<open>total_weight_is_sum\<close>), and \<open>add_process\<close> discards such a channel
  (\<open>add_process_discards\<close>). \<open>add_processes\<close> does not: with the threshold at one
  millionth, a channel of weight \<open>1 / 16777216\<close> handed to \<open>add_processes\<close> is retained
  and counted, on a fresh Action and on one that already has a channel, while
  \<open>add_process\<close> drops the same channel.
\<close>

theorem add_processes_keeps_negligible:
  "run_calls (1 / 1000000 :: real)
      [AddProcesses [\<lparr>particle_list = [''pi''], weight = 1 / 16777216, get_type = Elastic\<rparr>]]
      fresh_action
     = ([\<lparr>particle_list = [''pi''], weight = 1 / 16777216, get_type = Elastic\<rparr>], 1 / 16777216)
   \<and> fst (run_calls (1 / 1000000 :: real)
          [AddProcess \<lparr>particle_list = [''rho''], weight = 5, get_type = TwoToOne\<rparr>,
           AddProcesses [\<lparr>particle_list = [''pi''], weight = 1 / 16777216, get_type = Elastic\<rparr>]]
          fresh_action)
     = [\<lparr>particle_list = [''rho''], weight = 5, get_type = TwoToOne\<rparr>,
        \<lparr>particle_list = [''pi''], weight = 1 / 16777216, get_type = Elastic\<rparr>]
   \<and> run_calls (1 / 1000000 :: real)
        [AddProcess \<lparr>particle_list = [''pi''], weight = 1 / 16777216, get_type = Elastic\<rparr>]
        fresh_action = ([], 0)"
  by (simp add: fresh_action_def add_process_def add_processes_def)

section \<open>The loop of \<open>choose_channel\<close>\<close>

lemma first_reached_Cons_skip:
  "\<not> considered p \<Longrightarrow>
     first_reached rw ws (p # xs) n \<longleftrightarrow> (\<exists>m. n = Suc m \<and> first_reached rw ws xs m)"
  by (cases n) (auto simp: first_reached_def All_less_Suc2)

lemma first_reached_Cons_hit:
  "considered p \<Longrightarrow> rw \<le> ws + weight p \<Longrightarrow> first_reached rw ws (p # xs) n \<longleftrightarrow> n = 0"
  by (cases n) (auto simp: first_reached_def)

lemma first_reached_Cons_miss:
  "considered p \<Longrightarrow> \<not> rw \<le> ws + weight p \<Longrightarrow>
     first_reached rw ws (p # xs) n
       \<longleftrightarrow> (\<exists>m. n = Suc m \<and> first_reached rw (ws + weight p) xs m)"
  by (cases n) (auto simp: first_reached_def All_less_Suc2)

lemma choose_channel_loop_Inr:
  "choose_channel_loop rw ws k xs = Inr i \<longleftrightarrow> (\<exists>n. i = k + n \<and> first_reached rw ws xs n)"
proof (induction xs arbitrary: ws k)
  case Nil
  show ?case by (simp add: first_reached_def)
next
  case (Cons p xs)
  consider (skip) "\<not> considered p" | (hit) "considered p" "rw \<le> ws + weight p"
    | (miss) "considered p" "\<not> rw \<le> ws + weight p" by blast
  then show ?case
  proof cases
    case skip
    then have "choose_channel_loop rw ws k (p # xs) = choose_channel_loop rw ws (Suc k) xs"
      by (simp add: considered_def)
    then show ?thesis using skip Cons.IH [of ws "Suc k"]
      by (auto simp: first_reached_Cons_skip)
  next
    case hit
    then have "choose_channel_loop rw ws k (p # xs) = Inr k"
      by (auto simp: considered_def)
    then show ?thesis using hit by (auto simp: first_reached_Cons_hit)
  next
    case miss
    then have "choose_channel_loop rw ws k (p # xs)
                 = choose_channel_loop rw (ws + weight p) (Suc k) xs"
      by (auto simp: considered_def)
    then show ?thesis using miss Cons.IH [of "ws + weight p" "Suc k"]
      by (auto simp: first_reached_Cons_miss)
  qed
qed

lemma choose_channel_loop_Inl:
  "choose_channel_loop rw ws k xs = Inl s \<longleftrightarrow> s = accumulated ws xs \<and> never_reached rw ws xs"
proof (induction xs arbitrary: ws k)
  case Nil
  show ?case by (auto simp: never_reached_def)
next
  case (Cons p xs)
  show ?case
  proof (cases "considered p")
    case False
    then have "choose_channel_loop rw ws k (p # xs) = choose_channel_loop rw ws (Suc k) xs"
      by (simp add: considered_def)
    then show ?thesis using False Cons.IH [of ws "Suc k"]
      by (auto simp: never_reached_def All_less_Suc2)
  next
    case True
    then show ?thesis using Cons.IH [of "ws + weight p" "Suc k"]
      by (auto simp: never_reached_def considered_def All_less_Suc2)
  qed
qed

lemma choose_channel_one_draw:
  "snd (choose_channel uniform subprocesses total_weight engine)
     = snd (uniform 0 total_weight engine)"
  by (simp add: choose_channel_def split: prod.splits sum.splits)

text \<open>
  C2. The claim: \<open>choose_channel\<close> draws one uniform value in \<open>[0, total_weight)\<close>, walks
  the channel list accumulating weights, and selects the first channel whose cumulative
  weight meets or exceeds the draw. On the code this fails where the list holds a channel
  without final-state particles that is not a string process: the loop passes over it and
  does not count its weight. With two elastic channels of weight \<open>2\<close>, the first without
  final state, and the draw \<open>1\<close> of \<open>[0, 4)\<close>, the first channel already meets the draw,
  and the second is selected.
\<close>

theorem choose_channel_passes_over_counterexample:
  "fst (choose_channel replay_uniform
          [\<lparr>particle_list = [], weight = 2, get_type = Elastic\<rparr>,
           \<lparr>particle_list = [''pi'', ''pi''], weight = 2, get_type = Elastic\<rparr>] 4 [1 / 4]) = Inr 1
   \<and> \<not> first_meeting_draw (fst (replay_uniform 0 4 [1 / 4]))
          [\<lparr>particle_list = [], weight = 2, get_type = Elastic\<rparr>,
           \<lparr>particle_list = [''pi'', ''pi''], weight = 2, get_type = Elastic\<rparr>] 1
   \<and> first_meeting_draw (fst (replay_uniform 0 4 [1 / 4]))
          [\<lparr>particle_list = [], weight = 2, get_type = Elastic\<rparr>,
           \<lparr>particle_list = [''pi'', ''pi''], weight = 2, get_type = Elastic\<rparr>] 0"
  by (simp add: choose_channel_def particle_number_def first_meeting_draw_def
        cumulative_weight_def)

text \<open>
  C2, amended. \<open>choose_channel\<close> makes one draw \<open>uniform 0 total_weight\<close> and leaves the
  engine in the state after that draw. It returns the channel at position \<open>i\<close> exactly
  when that channel is the first considered one (one with a final-state particle, or a
  string process) at which the weight accumulated over the considered channels, in list
  order, meets or exceeds the draw.
\<close>

theorem choose_channel_first_reached:
  "choose_channel uniform subprocesses total_weight engine = (Inr i, engine')
     \<longleftrightarrow> engine' = snd (uniform 0 total_weight engine)
         \<and> first_reached (fst (uniform 0 total_weight engine)) 0 subprocesses i"
proof (cases "uniform 0 total_weight engine")
  case (Pair random_weight e)
  show ?thesis
  proof (cases "choose_channel_loop random_weight 0 0 subprocesses")
    case (Inl weight_sum)
    then have "\<not> first_reached random_weight 0 subprocesses i"
      using choose_channel_loop_Inr [of random_weight 0 0 subprocesses i] by simp
    then show ?thesis using Pair Inl by (simp add: choose_channel_def)
  next
    case (Inr n)
    then have "first_reached random_weight 0 subprocesses i \<longleftrightarrow> n = i"
      using choose_channel_loop_Inr [of random_weight 0 0 subprocesses i] by simp
    then show ?thesis using Pair Inr by (auto simp: choose_channel_def)
  qed
qed

theorem choose_channel_first_reached_witness:
  "choose_channel replay_uniform
      [\<lparr>particle_list = [], weight = 2, get_type = Elastic\<rparr>,
       \<lparr>particle_list = [''pi'', ''pi''], weight = 2, get_type = Elastic\<rparr>,
       \<lparr>particle_list = [''rho''], weight = 3, get_type = TwoToOne\<rparr>] 7 [3 / 7, 1 / 2]
     = (Inr 2, [1 / 2])
   \<and> first_reached (3::real) 0
        [\<lparr>particle_list = [], weight = 2, get_type = Elastic\<rparr>,
         \<lparr>particle_list = [''pi'', ''pi''], weight = 2, get_type = Elastic\<rparr>,
         \<lparr>particle_list = [''rho''], weight = 3, get_type = TwoToOne\<rparr>] 2"
proof -
  let ?subs = "[\<lparr>particle_list = [], weight = 2::real, get_type = Elastic\<rparr>,
       \<lparr>particle_list = [''pi'', ''pi''], weight = 2, get_type = Elastic\<rparr>,
       \<lparr>particle_list = [''rho''], weight = 3, get_type = TwoToOne\<rparr>]"
  have run: "choose_channel replay_uniform ?subs 7 [3 / 7, 1 / 2] = (Inr 2, [1 / 2])"
    by (simp add: choose_channel_def particle_number_def)
  then show ?thesis
    using choose_channel_first_reached [of replay_uniform ?subs 7 "[3 / 7, 1 / 2]" 2 "[1 / 2]"]
    by simp
qed

text \<open>
  C3. When the loop of \<open>choose_channel\<close> reaches the end of the list, that is when no
  considered channel's accumulated weight meets the draw, the function does not return a
  channel: it logs a fatal message with the number of channels, the accumulated weight
  sum, the total weight and the draw, and throws \<open>runtime_error\<close>. It fails in no other
  case.
\<close>

theorem choose_channel_fatal:
  "fst (choose_channel uniform subprocesses total_weight engine) = Inl failure
     \<longleftrightarrow> never_reached (fst (uniform 0 total_weight engine)) 0 subprocesses
         \<and> failure =
             \<lparr>logged = [source_location, Text ''Problem in choose_channel: '',
                        Count (length subprocesses), Text '' '', Value (accumulated 0 subprocesses),
                        Text '' '', Value total_weight,
                        Text '' '', Value (fst (uniform 0 total_weight engine)),
                        Text [CHR 0x0A]],
              thrown = runtime_error ''problem in choose_channel''\<rparr>"
proof (cases "uniform 0 total_weight engine")
  case (Pair random_weight e)
  show ?thesis
  proof (cases "choose_channel_loop random_weight 0 0 subprocesses")
    case (Inl weight_sum)
    then have "weight_sum = accumulated 0 subprocesses \<and> never_reached random_weight 0 subprocesses"
      using choose_channel_loop_Inl [of random_weight 0 0 subprocesses weight_sum] by simp
    then show ?thesis using Pair Inl by (auto simp: choose_channel_def)
  next
    case (Inr n)
    then have "\<not> never_reached random_weight 0 subprocesses"
      using choose_channel_loop_Inl [of random_weight 0 0 subprocesses "accumulated 0 subprocesses"]
      by simp
    then show ?thesis using Pair Inr by (simp add: choose_channel_def)
  qed
qed

theorem choose_channel_fatal_witness:
  "never_reached (3 / 2 :: real) 0 [\<lparr>particle_list = [''pi'', ''pi''], weight = 1, get_type = Elastic\<rparr>]
   \<and> fst (choose_channel replay_uniform
            [\<lparr>particle_list = [''pi'', ''pi''], weight = 1, get_type = Elastic\<rparr>] 2 [3 / 4])
       = Inl \<lparr>logged = [source_location, Text ''Problem in choose_channel: '', Count 1,
                        Text '' '', Value 1, Text '' '', Value 2, Text '' '', Value (3 / 2),
                        Text [CHR 0x0A]],
              thrown = runtime_error ''problem in choose_channel''\<rparr>"
proof -
  let ?subs = "[\<lparr>particle_list = [''pi'', ''pi''], weight = 1::real, get_type = Elastic\<rparr>]"
  have never: "never_reached (3 / 2 :: real) 0 ?subs"
    by (simp add: never_reached_def considered_def particle_number_def)
  then show ?thesis
    using choose_channel_fatal [of replay_uniform ?subs 2 "[3 / 4]", THEN iffD2]
    by (simp add: considered_def particle_number_def)
qed

lemma set_seed_same_draw:
  "uniform 0 total_weight (set_seed seed_state seed engine1)
     = uniform 0 total_weight (set_seed seed_state seed engine2)"
  by (simp add: set_seed_def)

text \<open>
  C6. Channel selection depends on the random engine through the value of its one draw
  and through nothing else. Two runs of \<open>choose_channel\<close> on the same channel list and
  total weight whose draws \<open>uniform 0 total_weight\<close> give the same value select the same
  channel, or fail with the same report, whatever the states of the engine and whatever
  the distribution that produced the value; and each run leaves its engine in the state
  after that draw. Two engines reseeded with the same seed give the same draw
  (\<open>set_seed_same_draw\<close>), so they are such runs.
\<close>

theorem choose_channel_same_draw:
  assumes "fst (uniform1 0 total_weight engine1) = fst (uniform2 0 total_weight engine2)"
  shows "fst (choose_channel uniform1 subprocesses total_weight engine1)
           = fst (choose_channel uniform2 subprocesses total_weight engine2)
         \<and> snd (choose_channel uniform1 subprocesses total_weight engine1)
           = snd (uniform1 0 total_weight engine1)
         \<and> snd (choose_channel uniform2 subprocesses total_weight engine2)
           = snd (uniform2 0 total_weight engine2)"
proof -
  obtain random_weight e1 where draw1: "uniform1 0 total_weight engine1 = (random_weight, e1)"
    by (cases "uniform1 0 total_weight engine1")
  obtain random_weight2 e2 where draw2: "uniform2 0 total_weight engine2 = (random_weight2, e2)"
    by (cases "uniform2 0 total_weight engine2")
  have same: "random_weight2 = random_weight"
    using assms draw1 draw2 by simp
  show ?thesis
  proof (cases "choose_channel_loop random_weight 0 0 subprocesses")
    case (Inl weight_sum)
    then show ?thesis using draw1 draw2 same by (simp add: choose_channel_def)
  next
    case (Inr i)
    then show ?thesis using draw1 draw2 same by (simp add: choose_channel_def)
  qed
qed

text \<open>
  Two engines with different pasts, \<open>[4 / 7]\<close> and \<open>[]\<close>, both reseeded to the state
  \<open>[3 / 7, 1 / 2]\<close>: the draw is \<open>3\<close> of \<open>[0, 7)\<close> in both runs and the third channel is
  selected in both. Without the reseeding the first engine draws \<open>4\<close> and the
  second \<open>0\<close>, and the runs select the third and the second channel.
\<close>

theorem choose_channel_same_draw_witness:
  "fst (replay_uniform 0 7 (set_seed (\<lambda>seed. [seed / 7, 1 / 2]) 3 [4 / 7]))
     = fst (replay_uniform 0 7 (set_seed (\<lambda>seed. [seed / 7, 1 / 2]) 3 []))
   \<and> fst (choose_channel replay_uniform
            [\<lparr>particle_list = [], weight = 2, get_type = Elastic\<rparr>,
             \<lparr>particle_list = [''pi'', ''pi''], weight = 2, get_type = Elastic\<rparr>,
             \<lparr>particle_list = [''rho''], weight = 3, get_type = TwoToOne\<rparr>] 7
            (set_seed (\<lambda>seed. [seed / 7, 1 / 2]) 3 [4 / 7]))
     = fst (choose_channel replay_uniform
            [\<lparr>particle_list = [], weight = 2, get_type = Elastic\<rparr>,
             \<lparr>particle_list = [''pi'', ''pi''], weight = 2, get_type = Elastic\<rparr>,
             \<lparr>particle_list = [''rho''], weight = 3, get_type = TwoToOne\<rparr>] 7
            (set_seed (\<lambda>seed. [seed / 7, 1 / 2]) 3 []))
   \<and> fst (choose_channel replay_uniform
            [\<lparr>particle_list = [], weight = 2, get_type = Elastic\<rparr>,
             \<lparr>particle_list = [''pi'', ''pi''], weight = 2, get_type = Elastic\<rparr>,
             \<lparr>particle_list = [''rho''], weight = 3, get_type = TwoToOne\<rparr>] 7
            (set_seed (\<lambda>seed. [seed / 7, 1 / 2]) 3 [])) = Inr 2
   \<and> fst (choose_channel replay_uniform
            [\<lparr>particle_list = [], weight = 2, get_type = Elastic\<rparr>,
             \<lparr>particle_list = [''pi'', ''pi''], weight = 2, get_type = Elastic\<rparr>,
             \<lparr>particle_list = [''rho''], weight = 3, get_type = TwoToOne\<rparr>] 7 [4 / 7]) = Inr 2
   \<and> fst (choose_channel replay_uniform
            [\<lparr>particle_list = [], weight = 2, get_type = Elastic\<rparr>,
             \<lparr>particle_list = [''pi'', ''pi''], weight = 2, get_type = Elastic\<rparr>,
             \<lparr>particle_list = [''rho''], weight = 3, get_type = TwoToOne\<rparr>] 7 []) = Inr 1"
proof -
  let ?subs = "[\<lparr>particle_list = [], weight = 2::real, get_type = Elastic\<rparr>,
       \<lparr>particle_list = [''pi'', ''pi''], weight = 2, get_type = Elastic\<rparr>,
       \<lparr>particle_list = [''rho''], weight = 3, get_type = TwoToOne\<rparr>]"
  let ?e1 = "set_seed (\<lambda>seed. [seed / 7, 1 / 2]) (3::real) [4 / 7]"
  let ?e2 = "set_seed (\<lambda>seed. [seed / 7, 1 / 2]) (3::real) []"
  have draws: "fst (replay_uniform 0 7 ?e1) = fst (replay_uniform 0 7 ?e2)"
    by (simp add: set_seed_def)
  have reseeded: "fst (choose_channel replay_uniform ?subs 7 ?e2) = Inr 2"
    by (simp add: choose_channel_def particle_number_def set_seed_def)
  have unseeded: "fst (choose_channel replay_uniform ?subs 7 [4 / 7]) = Inr 2"
    "fst (choose_channel replay_uniform ?subs 7 []) = Inr 1"
    by (simp_all add: choose_channel_def particle_number_def)
  show ?thesis
    using draws reseeded unseeded
      choose_channel_same_draw [of replay_uniform 7 ?e1 replay_uniform ?e2 ?subs, OF draws]
    by blast
qed

section \<open>The order of Actions\<close>

text \<open>
  C7. The claim: the ordering sorts by time of execution ascending and, for two Actions
  with the same time, prefers the one with the larger total weight. \<open>operator<\<close>
  compares the times only: of two scatter Actions at time \<open>1\<close> with cross sections \<open>5\<close>
  and \<open>2\<close>, neither comes before the other.
\<close>

theorem Action_less_ignores_weight_counterexample:
  "time_of_execution
        (\<lparr>incoming_particles = [1, 2], outgoing_particles = [], time_of_execution = 1,
          process_type = Elastic, collision_channels = [], total_cross_section = 5\<rparr>
           :: (nat, string, real) ScatterAction)
     = time_of_execution
        (\<lparr>incoming_particles = [3, 4], outgoing_particles = [], time_of_execution = 1,
          process_type = Elastic, collision_channels = [], total_cross_section = 2\<rparr>
           :: (nat, string, real) ScatterAction)
   \<and> cross_section
        (\<lparr>incoming_particles = [3, 4], outgoing_particles = [], time_of_execution = 1,
          process_type = Elastic, collision_channels = [], total_cross_section = 2\<rparr>
           :: (nat, string, real) ScatterAction)
     < cross_section
        (\<lparr>incoming_particles = [1, 2], outgoing_particles = [], time_of_execution = 1,
          process_type = Elastic, collision_channels = [], total_cross_section = 5\<rparr>
           :: (nat, string, real) ScatterAction)
   \<and> \<not> Action_less
        (\<lparr>incoming_particles = [1, 2], outgoing_particles = [], time_of_execution = 1,
          process_type = Elastic, collision_channels = [], total_cross_section = 5\<rparr>
           :: (nat, string, real) ScatterAction)
        (\<lparr>incoming_particles = [3, 4], outgoing_particles = [], time_of_execution = 1,
          process_type = Elastic, collision_channels = [], total_cross_section = 2\<rparr>
           :: (nat, string, real) ScatterAction)"
  by (simp add: Action_less_def cross_section_def)

text \<open>
  C7, amended. \<open>operator<\<close> orders Actions by their time of execution alone: one Action
  comes before another exactly when its time is smaller, whatever the weights of the
  two, and two Actions with the same time are not ordered either way.
\<close>

theorem Action_less_by_time_only:
  fixes a b :: "('pd, 'p, 'w) ScatterAction"
  shows "(Action_less a b \<longleftrightarrow> time_of_execution a < time_of_execution b)
    \<and> Action_less (a\<lparr>total_cross_section := wa\<rparr>) (b\<lparr>total_cross_section := wb\<rparr>)
        = Action_less a b
    \<and> (time_of_execution a = time_of_execution b
         \<longrightarrow> \<not> Action_less a b \<and> \<not> Action_less b a)"
  by (simp add: Action_less_def)

theorem Action_less_by_time_only_witness:
  "time_of_execution
        (\<lparr>incoming_particles = [1, 2], outgoing_particles = [], time_of_execution = 1,
          process_type = Elastic, collision_channels = [], total_cross_section = 5\<rparr>
           :: (nat, string, real) ScatterAction)
     = time_of_execution
        (\<lparr>incoming_particles = [3, 4], outgoing_particles = [], time_of_execution = 1,
          process_type = Elastic, collision_channels = [], total_cross_section = 2\<rparr>
           :: (nat, string, real) ScatterAction)
   \<and> \<not> Action_less
        (\<lparr>incoming_particles = [3, 4], outgoing_particles = [], time_of_execution = 1,
          process_type = Elastic, collision_channels = [], total_cross_section = 2\<rparr>
           :: (nat, string, real) ScatterAction)
        (\<lparr>incoming_particles = [1, 2], outgoing_particles = [], time_of_execution = 1,
          process_type = Elastic, collision_channels = [], total_cross_section = 5\<rparr>
           :: (nat, string, real) ScatterAction)"
  using Action_less_by_time_only
    [of "(\<lparr>incoming_particles = [1, 2], outgoing_particles = [], time_of_execution = 1,
          process_type = Elastic, collision_channels = [], total_cross_section = 5\<rparr>
           :: (nat, string, real) ScatterAction)"
        "(\<lparr>incoming_particles = [3, 4], outgoing_particles = [], time_of_execution = 1,
          process_type = Elastic, collision_channels = [], total_cross_section = 2\<rparr>
           :: (nat, string, real) ScatterAction)" 5 2]
  by simp

section \<open>What the binary output appends\<close>

lemma write_particledata_eq:
  "write_particledata type_value p out
     = out\<lparr>file := fwrite (particle_line type_value (extended out) p) (file out)\<rparr>"
  by (simp add: write_particledata_def particle_line_def Let_def write_FourVector_def
        write_int32_def write_uint32_def write_double_def fwrite_def)

lemma write_particles_eq:
  "write_particles type_value particles out
     = out\<lparr>file := fwrite (concat (map (particle_line type_value (extended out)) particles))
                       (file out)\<rparr>"
proof (induction particles arbitrary: out)
  case Nil
  show ?case by (simp add: fwrite_def)
next
  case (Cons p particles)
  show ?case
    by (simp add: Cons.IH write_particledata_eq fwrite_def)
qed

lemma fwrite_Nil: "fwrite [] f = f"
  by (simp add: fwrite_def)

lemma at_eventstart_eq:
  "at_eventstart type_value particles event_number out
     = out\<lparr>file := fwrite (if print_start_end out
                            then particle_block type_value (extended out) particles else [])
                       (file out)\<rparr>"
  by (simp add: at_eventstart_def particle_block_def write_particles_eq write_char_def
        write_uint32_def fwrite_def)

lemma at_eventend_eq:
  "at_eventend type_value particles event_number impact_parameter out
     = out\<lparr>file :=
         \<lparr>buffered = [],
          on_disk = on_disk (file out) @ buffered (file out)
            @ (if print_start_end out
               then particle_block type_value (extended out) particles else [])
            @ [Chars ''f'', Int32 event_number, Double impact_parameter]\<rparr>\<rparr>"
  by (simp add: at_eventend_def particle_block_def write_particles_eq write_char_def
        write_uint32_def write_int32_def write_double_def fwrite_def fflush_def)

lemma at_interaction_eq:
  "at_interaction type_value get_total_weight get_partial_weight action density out
     = out\<lparr>file := fwrite
         ([Chars ''i'', UInt32 (length (incoming_particles action)),
           UInt32 (length (outgoing_particles action)), Double density,
           Double (get_total_weight action), Double (get_partial_weight action),
           UInt32 (type_value (process_type action))]
          @ concat (map (particle_line type_value (extended out)) (incoming_particles action))
          @ concat (map (particle_line type_value (extended out)) (outgoing_particles action)))
         (file out)\<rparr>"
  by (simp add: at_interaction_def write_particles_eq write_char_def write_uint32_def
        fwrite_def)

lemma particle_line_default_history:
  "particle_line type_value False (p\<lparr>get_history := h\<rparr>) = particle_line type_value False p"
  by (simp add: particle_line_def)

text \<open>
  C8. The claim: the interaction record \<open>at_interaction\<close> writes holds the incoming
  particles, the outgoing particles, the process id, the process-type tag and the
  density / cross-section value. No process id is among the fields of the record; in
  the default format the particle lines do not hold one either. Two Actions whose
  outgoing particles were stamped with the process ids \<open>7\<close> and \<open>8\<close> give the same
  output.
\<close>

theorem at_interaction_no_process_id_counterexample:
  "map (\<lambda>p. id_process (get_history p)) (outgoing_particles (scatter_of_process 7)) = [7, 7]
   \<and> map (\<lambda>p. id_process (get_history p)) (outgoing_particles (scatter_of_process 8)) = [8, 8]
   \<and> at_interaction (\<lambda>t. 1) (\<lambda>a. 40) (\<lambda>a. 40) (scatter_of_process 7) (1 / 2)
        (fresh_output False True)
     = at_interaction (\<lambda>t. 1) (\<lambda>a. 40) (\<lambda>a. 40) (scatter_of_process 8) (1 / 2)
        (fresh_output False True)"
  by (simp add: at_interaction_eq scatter_of_process_def pion_of_process_def
        fresh_output_def particle_line_def)

text \<open>
  C8, amended. \<open>at_interaction\<close> appends to the file, in this order: the character
  \<open>'i'\<close>, the number of incoming and the number of outgoing particles, the density, the
  total weight and the partial weight of the Action, the process-type tag, then one
  particle line for each incoming and each outgoing particle. The process id is no field
  of this record: for given weights, in the default format the output is the same
  whatever the histories of the outgoing particles hold.
\<close>

theorem at_interaction_record:
  "at_interaction type_value get_total_weight get_partial_weight action density out
     = out\<lparr>file := fwrite
         ([Chars ''i'', UInt32 (length (incoming_particles action)),
           UInt32 (length (outgoing_particles action)), Double density,
           Double (get_total_weight action), Double (get_partial_weight action),
           UInt32 (type_value (process_type action))]
          @ concat (map (particle_line type_value (extended out)) (incoming_particles action))
          @ concat (map (particle_line type_value (extended out)) (outgoing_particles action)))
         (file out)\<rparr>
   \<and> file (at_interaction type_value (\<lambda>a. w) (\<lambda>a. pw)
        \<lparr>incoming_particles = ins, outgoing_particles = map (\<lambda>p. p\<lparr>get_history := h p\<rparr>) outs,
         time_of_execution = t, process_type = ty\<rparr> density (out\<lparr>extended := False\<rparr>))
     = file (at_interaction type_value (\<lambda>a. w) (\<lambda>a. pw)
        \<lparr>incoming_particles = ins, outgoing_particles = outs,
         time_of_execution = t, process_type = ty\<rparr> density (out\<lparr>extended := False\<rparr>))"
  by (simp add: at_interaction_eq particle_line_default_history comp_def)

text \<open>
  C10. \<open>at_eventstart\<close> appends the particle block (\<open>'p'\<close>, the number of particles,
  their lines) when \<open>print_start_end\<close> is set and nothing otherwise. \<open>at_eventend\<close>
  appends the same block under the same condition and then, in either case, the
  character \<open>'f'\<close>, the event number and the impact parameter, and flushes: afterwards
  everything written is on the disk and nothing is left in the buffer.
\<close>

theorem at_event_start_end:
  "at_eventstart type_value particles event_number out
     = out\<lparr>file := fwrite (if print_start_end out
                            then particle_block type_value (extended out) particles else [])
                       (file out)\<rparr>
   \<and> at_eventend type_value particles event_number impact_parameter out
     = out\<lparr>file :=
         \<lparr>buffered = [],
          on_disk = on_disk (file out) @ buffered (file out)
            @ (if print_start_end out
               then particle_block type_value (extended out) particles else [])
            @ [Chars ''f'', Int32 event_number, Double impact_parameter]\<rparr>\<rparr>"
  by (simp only: at_eventstart_eq at_eventend_eq)

section \<open>String excitation without Pythia\<close>

text \<open>
  C5. The claim: when Pythia is not compiled in, this is reported once, at startup, and
  never surfaces as a failure of a call of \<open>string_excitation\<close>. In the code the failure
  is that of the call: without \<open>PYTHIA_FOUND\<close> a call on two pions throws, and so does
  the next one.
\<close>

theorem string_excitation_fails_per_call_counterexample:
  "string_excitation False (\<lambda>e. (0, e)) (\<lambda>settings. []) (\<lambda>p q. 0) (\<lambda>code. pion_of_process 0)
      (\<lambda>less xs. xs) [pion_of_process 0, pion_of_process 0] 1 (0::nat)
     = (Inl (throws (runtime_error ''Pythia 8 not available for string excitation'')), 0)
   \<and> string_excitation False (\<lambda>e. (0, e)) (\<lambda>settings. []) (\<lambda>p q. 0) (\<lambda>code. pion_of_process 0)
        (\<lambda>less xs. xs) [pion_of_process 0, pion_of_process 0] 1
        (snd (string_excitation False (\<lambda>e. (0, e)) (\<lambda>settings. []) (\<lambda>p q. 0)
                (\<lambda>code. pion_of_process 0) (\<lambda>less xs. xs)
                [pion_of_process 0, pion_of_process 0] 1 (0::nat)))
     = (Inl (throws (runtime_error ''Pythia 8 not available for string excitation'')), 0)"
  by (simp add: string_excitation_def)

text \<open>
  C5, amended. When Pythia is not compiled in, every call of \<open>string_excitation\<close>,
  whatever its arguments, throws \<open>runtime_error\<close> with the message
  \<open>Pythia 8 not available for string excitation\<close>; it returns no particle list and
  makes no draw from the engine.
\<close>

theorem string_excitation_without_pythia:
  "string_excitation False canonical pythia abs_sum new_particle std_sort
       incoming_particles_arg formation_time_arg engine
     = (Inl (throws (runtime_error ''Pythia 8 not available for string excitation'')), engine)"
  by (simp add: string_excitation_def)


end
